theory Spec2Isabelle
  imports Main
begin

section \<open>Cells, text and dictionaries\<close>

text \<open>
  The program is \<^verbatim>\<open>SKUMapper\<close> of \<^verbatim>\<open>mdlkncsn.py.py\<close>: a dictionary from SKU to
  MSKU, a single-value resolver, a combo classifier and the three-pass row transformer
  over a pandas DataFrame.

  A cell of a table is a missing value (Python's \<^verbatim>\<open>None\<close>, or the float
  \<^verbatim>\<open>nan\<close> that pandas stores for an empty field) or a text. Numeric cells are
  outside the model. \<^verbatim>\<open>pd.isna\<close> is true of both missing values and false of
  every text, the empty text included.
\<close>

datatype cell = PyNone | NaN | Str string

fun isna :: "cell \<Rightarrow> bool" where
  "isna PyNone = True"
| "isna NaN = True"
| "isna (Str s) = False"

text \<open>\<^verbatim>\<open>str(v)\<close> of a cell.\<close>

fun py_str :: "cell \<Rightarrow> string" where
  "py_str PyNone = ''None''"
| "py_str NaN = ''nan''"
| "py_str (Str s) = s"

text \<open>
  Text is ASCII: \<^verbatim>\<open>str.strip()\<close> removes the ASCII characters for which
  \<^verbatim>\<open>str.isspace()\<close> holds (codes 9 to 13 and 28 to 32) from both ends, and
  \<^verbatim>\<open>str.upper()\<close> maps the letters a to z to A to Z and leaves every other
  character alone.
\<close>

definition isspace :: "char \<Rightarrow> bool" where
  "isspace c = (c \<in> set [CHR 0x09, CHR 0x0A, CHR 0x0B, CHR 0x0C, CHR 0x0D,
                          CHR 0x1C, CHR 0x1D, CHR 0x1E, CHR 0x1F, CHR 0x20])"

definition strip :: "string \<Rightarrow> string" where
  "strip s = rev (dropWhile isspace (rev (dropWhile isspace s)))"

definition upper_char :: "char \<Rightarrow> char" where
  "upper_char c =
     (case map_of (zip ''abcdefghijklmnopqrstuvwxyz'' ''ABCDEFGHIJKLMNOPQRSTUVWXYZ'') c of
        Some u \<Rightarrow> u
      | None \<Rightarrow> c)"

definition upper :: "string \<Rightarrow> string" where
  "upper s = map upper_char s"

definition startswith :: "string \<Rightarrow> string \<Rightarrow> bool" where
  "startswith s p = (take (length p) s = p)"

text \<open>
  A Python \<^verbatim>\<open>dict\<close> is the list of its items in insertion order.
  \<^verbatim>\<open>d[k] = v\<close> replaces the value of a key that is there, at its place, and
  appends a new key. A DataFrame is used the same way, as its columns in order:
  \<^verbatim>\<open>df[c] = s\<close> overwrites the column \<open>c\<close> or appends it.
\<close>

fun dict_setitem :: "('k \<times> 'v) list \<Rightarrow> 'k \<Rightarrow> 'v \<Rightarrow> ('k \<times> 'v) list" where
  "dict_setitem [] k v = [(k, v)]"
| "dict_setitem ((k', v') # d) k v =
     (if k' = k then (k', v) # d else (k', v') # dict_setitem d k v)"

definition dict_get :: "('k \<times> 'v) list \<Rightarrow> 'k \<Rightarrow> 'v option" where
  "dict_get d k = map_of d k"

definition keys :: "('k \<times> 'v) list \<Rightarrow> 'k list" where
  "keys d = map fst d"

text \<open>
  \<^verbatim>\<open>Series.to_dict()\<close> builds the dictionary from the (index, value) pairs of
  the series, one after the other.
\<close>

definition to_dict :: "('k \<times> 'v) list \<Rightarrow> ('k \<times> 'v) list" where
  "to_dict ps = foldl (\<lambda>d (k, v). dict_setitem d k v) [] ps"

section \<open>Tables\<close>

type_synonym series = "cell list"

type_synonym dataframe = "(string \<times> series) list"

datatype error = ValueError string | FileNotFoundError string | KeyError string

definition columns :: "dataframe \<Rightarrow> string list" where
  "columns df = map fst df"

text \<open>\<^verbatim>\<open>df[c]\<close> raises \<^verbatim>\<open>KeyError\<close> when the table has no column \<open>c\<close>.\<close>

definition getitem :: "dataframe \<Rightarrow> string \<Rightarrow> error + series" where
  "getitem df c = (case map_of df c of None \<Rightarrow> Inl (KeyError c) | Some s \<Rightarrow> Inr s)"

definition setitem :: "dataframe \<Rightarrow> string \<Rightarrow> series \<Rightarrow> dataframe" where
  "setitem df c s = dict_setitem df c s"

text \<open>\<^verbatim>\<open>Series.apply(f)\<close> calls \<open>f\<close> on every element, in order.\<close>

definition series_apply :: "series \<Rightarrow> (cell \<Rightarrow> cell) \<Rightarrow> series" where
  "series_apply s f = map f s"

text \<open>
  A table with \<open>n\<close> rows: every column has \<open>n\<close> cells and no two columns share a
  name.
\<close>

definition table_rows :: "nat \<Rightarrow> dataframe \<Rightarrow> bool" where
  "table_rows n df = (list_all (\<lambda>p. length (snd p) = n) df \<and> distinct (columns df))"

section \<open>SKUMapper\<close>

record SKUMapper =
  sku_to_msku_map :: "(cell \<times> cell) list"
  processed_data :: "dataframe option"

definition init :: SKUMapper where
  "init = \<lparr>sku_to_msku_map = [], processed_data = None\<rparr>"

text \<open>
  \<^verbatim>\<open>pd.read_csv\<close> is outside the program: its outcome on a path is a parameter of
  \<open>load_mapping\<close>.
\<close>

datatype read_csv_result = NoSuchFile | Unreadable string | Table dataframe

text \<open>
  \<open>load_mapping\<close> returns what the call returns or raises, and the mapper after the call.
  The \<^verbatim>\<open>ValueError\<close> for missing columns is raised inside the \<^verbatim>\<open>try\<close> and
  caught by \<^verbatim>\<open>except Exception\<close>, which raises a \<^verbatim>\<open>ValueError\<close> again with
  the longer message. The test that both columns are there and the two reads
  \<^verbatim>\<open>set_index('SKU')['MSKU']\<close> are one case distinction on the two reads; the index
  and the values of the resulting series are the SKU and MSKU cells of each row.
\<close>

definition load_mapping ::
  "SKUMapper \<Rightarrow> string \<Rightarrow> (string \<Rightarrow> read_csv_result) \<Rightarrow> (error + bool) \<times> SKUMapper" where
  "load_mapping self file_path read_csv =
     (if file_path = [] then (Inl (ValueError ''No mapping file path provided.''), self)
      else case read_csv file_path of
        NoSuchFile \<Rightarrow> (Inl (FileNotFoundError (''Mapping file not found: '' @ file_path)), self)
      | Unreadable e \<Rightarrow> (Inl (ValueError (''Error loading mapping file: '' @ e)), self)
      | Table mapping_df \<Rightarrow>
          (case (getitem mapping_df ''SKU'', getitem mapping_df ''MSKU'') of
             (Inr skus, Inr mskus) \<Rightarrow>
               (Inr True, self\<lparr>sku_to_msku_map := to_dict (zip skus mskus)\<rparr>)
           | _ \<Rightarrow>
               (Inl (ValueError (''Error loading mapping file: ''
                  @ ''Mapping file must contain 'SKU' and 'MSKU' columns.'')), self)))"

definition identify_and_map_sku :: "SKUMapper \<Rightarrow> cell \<Rightarrow> cell" where
  "identify_and_map_sku self sku_value =
     (if isna sku_value then PyNone
      else let clean_sku = upper (strip (py_str sku_value)) in
        case dict_get (sku_to_msku_map self) (Str clean_sku) of
          Some msku \<Rightarrow> msku
        | None \<Rightarrow> sku_value)"

definition process_combo :: "string \<Rightarrow> cell \<Rightarrow> cell" where
  "process_combo combo_prefix sku =
     (if isna sku then sku
      else if startswith (upper (strip (py_str sku))) combo_prefix
        then Str (combo_prefix @ ''MSKU'')
      else sku)"

definition handle_combo_products :: "dataframe \<Rightarrow> string \<Rightarrow> string \<Rightarrow> error + dataframe" where
  "handle_combo_products df sku_column combo_prefix =
     (if sku_column \<notin> set (columns df) then Inr df
      else case getitem df sku_column of
        Inl e \<Rightarrow> Inl e
      | Inr s \<Rightarrow> Inr (setitem df sku_column (series_apply s (process_combo combo_prefix))))"

text \<open>
  \<open>process_sales_data\<close> mutates the caller's table and the mapper: the result is what the
  call returns or raises, the mapper after the call and the table after the call.
  The mapper's dictionary is never \<^verbatim>\<open>None\<close> (the constructor and
  \<open>load_mapping\<close> only store dictionaries), so the first test is the test for the empty
  dictionary. \<open>handle_combo_products\<close> is called with the default prefix.
\<close>

definition process_sales_data ::
  "SKUMapper \<Rightarrow> dataframe \<Rightarrow> string \<Rightarrow> string \<Rightarrow> (error + dataframe) \<times> SKUMapper \<times> dataframe" where
  "process_sales_data self df sku_column msku_column =
     (if sku_to_msku_map self = [] then
        (Inl (ValueError ''SKU to MSKU mapping is not loaded.''), self, df)
      else if sku_column \<notin> set (columns df) then
        (Inl (ValueError (''SKU column ' '' @ sku_column @ '' ' not found in the sales data.'')), self, df)
      else case getitem df sku_column of
        Inl e \<Rightarrow> (Inl e, self, df)
      | Inr s1 \<Rightarrow>
          let df1 = setitem df msku_column (series_apply s1 (identify_and_map_sku self)) in
          case handle_combo_products df1 sku_column ''COMBO_'' of
            Inl e \<Rightarrow> (Inl e, self, df1)
          | Inr df2 \<Rightarrow>
              (case getitem df2 sku_column of
                 Inl e \<Rightarrow> (Inl e, self, df2)
               | Inr s3 \<Rightarrow>
                   let df3 = setitem df2 msku_column (series_apply s3 (identify_and_map_sku self))
                   in (Inr df3, self\<lparr>processed_data := Some df3\<rparr>, df3)))"

section \<open>Facts about dictionaries and tables\<close>

lemma map_of_dict_setitem:
  "map_of (dict_setitem d k v) k' = (if k' = k then Some v else map_of d k')"
  by (induction d) auto

lemma keys_dict_setitem:
  "map fst (dict_setitem d k v) = (if k \<in> set (map fst d) then map fst d else map fst d @ [k])"
  by (induction d) force+

lemma dict_setitem_same:
  "map_of d k = Some v \<Longrightarrow> dict_setitem d k v = d"
  by (induction d) (auto split: if_splits)

lemma getitem_setitem:
  "getitem (setitem df c s) c' = (if c' = c then Inr s else getitem df c')"
  by (simp add: getitem_def setitem_def map_of_dict_setitem)

lemma columns_setitem:
  "columns (setitem df c s) = (if c \<in> set (columns df) then columns df else columns df @ [c])"
  by (simp add: columns_def setitem_def keys_dict_setitem)

lemma getitem_Inr_iff:
  "(\<exists>s. getitem df c = Inr s) = (c \<in> set (columns df))"
  by (auto simp: getitem_def columns_def map_of_eq_None_iff split: option.splits)
    (metis map_of_eq_None_iff not_Some_eq)

text \<open>The definitions that a run on a concrete table unfolds.\<close>

lemmas run_defs =
  process_sales_data_def handle_combo_products_def getitem_def setitem_def columns_def
  series_apply_def identify_and_map_sku_def process_combo_def dict_get_def
  startswith_def upper_def strip_def isspace_def upper_char_def Let_def

section \<open>The resolver\<close>

text \<open>
  C2. For every raw SKU value \<open>s\<close> that is not missing and whose stripped, upper-cased
  text is a key of the mapper's dictionary, \<open>identify_and_map_sku\<close> returns exactly the
  MSKU stored under that key.
\<close>

theorem identify_and_map_sku_mapped:
  assumes "\<not> isna s"
    and "dict_get (sku_to_msku_map self) (Str (upper (strip (py_str s)))) = Some msku"
  shows "identify_and_map_sku self s = msku"
  using assms by (simp add: identify_and_map_sku_def)

text \<open>
  Scenario A of the specification: with the dictionary ABC123 to M-1 and XYZ999 to M-2,
  the raw SKU \<^verbatim>\<open>" abc123 "\<close> resolves to M-1.
\<close>

theorem identify_and_map_sku_mapped_witness:
  "\<not> isna (Str '' abc123 '') \<and>
   dict_get (sku_to_msku_map \<lparr>sku_to_msku_map = [(Str ''ABC123'', Str ''M-1''), (Str ''XYZ999'', Str ''M-2'')],
                              processed_data = None\<rparr>)
     (Str (upper (strip (py_str (Str '' abc123 ''))))) = Some (Str ''M-1'') \<and>
   identify_and_map_sku \<lparr>sku_to_msku_map = [(Str ''ABC123'', Str ''M-1''), (Str ''XYZ999'', Str ''M-2'')],
                         processed_data = None\<rparr> (Str '' abc123 '') = Str ''M-1''"
proof -
  have n: "upper (strip '' abc123 '') = ''ABC123''"
    by (simp add: upper_def strip_def isspace_def upper_char_def)
  have h: "dict_get (sku_to_msku_map \<lparr>sku_to_msku_map = [(Str ''ABC123'', Str ''M-1''), (Str ''XYZ999'', Str ''M-2'')],
                              processed_data = None\<rparr>)
     (Str (upper (strip (py_str (Str '' abc123 ''))))) = Some (Str ''M-1'')"
    by (simp add: n dict_get_def)
  have i: "\<not> isna (Str '' abc123 '')" by simp
  from identify_and_map_sku_mapped [OF i h] i h show ?thesis by blast
qed

section \<open>The row transformer\<close>

lemma getitem_in_columns: "getitem df c = Inr s \<Longrightarrow> c \<in> set (columns df)"
  using getitem_Inr_iff by blast

lemma in_columns_getitem: "c \<in> set (columns df) \<Longrightarrow> \<exists>s. getitem df c = Inr s"
  using getitem_Inr_iff by blast

lemma handle_combo_products_present:
  "getitem df c = Inr s \<Longrightarrow>
   handle_combo_products df c p = Inr (setitem df c (map (process_combo p) s))"
  by (simp add: handle_combo_products_def series_apply_def getitem_in_columns)

lemma process_sales_data_run:
  assumes "sku_to_msku_map self \<noteq> []" and "getitem df sc = Inr s" and "sc \<noteq> mc"
  shows "process_sales_data self df sc mc =
    (let df3 = setitem (setitem (setitem df mc (map (identify_and_map_sku self) s))
                          sc (map (process_combo ''COMBO_'') s))
                 mc (map (identify_and_map_sku self) (map (process_combo ''COMBO_'') s))
     in (Inr df3, self\<lparr>processed_data := Some df3\<rparr>, df3))"
proof -
  let ?df1 = "setitem df mc (map (identify_and_map_sku self) s)"
  have c: "sc \<in> set (columns df)" using assms(2) by (rule getitem_in_columns)
  have g1: "getitem ?df1 sc = Inr s" using assms by (simp add: getitem_setitem)
  have h: "handle_combo_products ?df1 sc ''COMBO_'' =
      Inr (setitem ?df1 sc (map (process_combo ''COMBO_'') s))"
    using g1 by (rule handle_combo_products_present)
  show ?thesis
    using assms c by (simp add: process_sales_data_def series_apply_def h getitem_setitem Let_def)
qed

lemma process_sales_data_total:
  assumes "sku_to_msku_map self \<noteq> []" and "sc \<in> set (columns df)"
  shows "\<exists>df'. process_sales_data self df sc mc = (Inr df', self\<lparr>processed_data := Some df'\<rparr>, df')"
proof -
  obtain s where s: "getitem df sc = Inr s" using assms(2) in_columns_getitem by blast
  let ?df1 = "setitem df mc (series_apply s (identify_and_map_sku self))"
  have "sc \<in> set (columns ?df1)" using assms(2) by (simp add: columns_setitem)
  then obtain s1 where s1: "getitem ?df1 sc = Inr s1" using in_columns_getitem by blast
  have h: "handle_combo_products ?df1 sc ''COMBO_'' =
      Inr (setitem ?df1 sc (map (process_combo ''COMBO_'') s1))"
    using s1 by (rule handle_combo_products_present)
  show ?thesis
    using assms s by (simp add: process_sales_data_def h getitem_setitem Let_def)
qed

lemma process_sales_data_error:
  assumes "fst (process_sales_data self df sc mc) = Inl e"
  shows "sku_to_msku_map self = [] \<or> sc \<notin> set (columns df)"
proof (rule ccontr)
  assume "\<not> ?thesis"
  then have "sku_to_msku_map self \<noteq> []" "sc \<in> set (columns df)" by auto
  from process_sales_data_total [OF this, of mc] assms show False by auto
qed

lemma list_all_dict_setitem:
  "list_all P d \<Longrightarrow> P (k, v) \<Longrightarrow> list_all P (dict_setitem d k v)"
  by (induction d) auto

lemma distinct_keys_dict_setitem:
  "distinct (map fst d) \<Longrightarrow> distinct (map fst (dict_setitem d k v))"
  by (simp add: keys_dict_setitem)

lemma table_rows_setitem:
  "table_rows n df \<Longrightarrow> length s = n \<Longrightarrow> table_rows n (setitem df c s)"
  by (simp add: table_rows_def setitem_def columns_def list_all_dict_setitem
      distinct_keys_dict_setitem)

lemma table_rows_getitem:
  "table_rows n df \<Longrightarrow> getitem df c = Inr s \<Longrightarrow> length s = n"
  by (auto simp: table_rows_def getitem_def list_all_iff split: option.splits dest!: map_of_SomeD)

text \<open>
  C8. \<open>process_sales_data\<close> raises a \<^verbatim>\<open>ValueError\<close> (the specification's schema
  error) when the mapper's dictionary is empty and when the table has no SKU column, and
  whenever it raises, the mapper and the table are as they were before the call: no column
  has been written.
\<close>

theorem process_sales_data_all_or_nothing:
  "(sku_to_msku_map self = [] \<or> sku_column \<notin> set (columns df) \<longrightarrow>
      (\<exists>msg. process_sales_data self df sku_column msku_column = (Inl (ValueError msg), self, df)))
   \<and> (\<forall>e. fst (process_sales_data self df sku_column msku_column) = Inl e \<longrightarrow>
      snd (process_sales_data self df sku_column msku_column) = (self, df))"
proof (intro conjI impI allI)
  assume "sku_to_msku_map self = [] \<or> sku_column \<notin> set (columns df)"
  then show "\<exists>msg. process_sales_data self df sku_column msku_column = (Inl (ValueError msg), self, df)"
    by (auto simp: process_sales_data_def)
next
  fix e
  assume "fst (process_sales_data self df sku_column msku_column) = Inl e"
  then have "sku_to_msku_map self = [] \<or> sku_column \<notin> set (columns df)"
    by (rule process_sales_data_error)
  then show "snd (process_sales_data self df sku_column msku_column) = (self, df)"
    by (auto simp: process_sales_data_def)
qed

text \<open>
  Both failures at concrete inputs: a fresh mapper with no dictionary loaded, and a loaded
  mapper on a table whose columns are Item and Qty.
\<close>

theorem process_sales_data_all_or_nothing_witness:
  "sku_to_msku_map init = [] \<and>
   process_sales_data init [(''SKU'', [Str ''ABC123'']), (''Qty'', [Str ''2''])] ''SKU'' ''MSKU''
     = (Inl (ValueError ''SKU to MSKU mapping is not loaded.''), init,
        [(''SKU'', [Str ''ABC123'']), (''Qty'', [Str ''2''])]) \<and>
   ''SKU'' \<notin> set (columns [(''Item'', [Str ''ABC123'']), (''Qty'', [Str ''2''])]) \<and>
   (\<exists>msg. process_sales_data \<lparr>sku_to_msku_map = [(Str ''ABC123'', Str ''M-1'')], processed_data = None\<rparr>
      [(''Item'', [Str ''ABC123'']), (''Qty'', [Str ''2''])] ''SKU'' ''MSKU''
     = (Inl (ValueError msg), \<lparr>sku_to_msku_map = [(Str ''ABC123'', Str ''M-1'')], processed_data = None\<rparr>,
        [(''Item'', [Str ''ABC123'']), (''Qty'', [Str ''2''])]))"
proof -
  have a: "sku_to_msku_map init = []" by (simp add: init_def)
  have b: "''SKU'' \<notin> set (columns [(''Item'', [Str ''ABC123'']), (''Qty'', [Str ''2''])])"
    by (simp add: columns_def)
  have c: "process_sales_data init [(''SKU'', [Str ''ABC123'']), (''Qty'', [Str ''2''])] ''SKU'' ''MSKU''
     = (Inl (ValueError ''SKU to MSKU mapping is not loaded.''), init,
        [(''SKU'', [Str ''ABC123'']), (''Qty'', [Str ''2''])])"
    by (simp add: process_sales_data_def init_def)
  from process_sales_data_all_or_nothing
    [of "\<lparr>sku_to_msku_map = [(Str ''ABC123'', Str ''M-1'')], processed_data = None\<rparr>" "''SKU''"
        "[(''Item'', [Str ''ABC123'']), (''Qty'', [Str ''2''])]" "''MSKU''"] a b c
  show ?thesis by blast
qed

text \<open>
  C10. On a table without the SKU column \<open>handle_combo_products\<close> raises nothing and
  returns the table as it is (the warning it logs is not part of the model).
\<close>

theorem handle_combo_products_no_column:
  assumes "sku_column \<notin> set (columns df)"
  shows "handle_combo_products df sku_column combo_prefix = Inr df"
  using assms by (simp add: handle_combo_products_def)

text \<open>
  A table with the columns Item and Qty comes back unchanged, also when a cell carries
  the combo prefix.
\<close>

theorem handle_combo_products_no_column_witness:
  "''SKU'' \<notin> set (columns [(''Item'', [Str ''COMBO_1'']), (''Qty'', [Str ''2''])]) \<and>
   handle_combo_products [(''Item'', [Str ''COMBO_1'']), (''Qty'', [Str ''2''])] ''SKU'' ''COMBO_''
     = Inr [(''Item'', [Str ''COMBO_1'']), (''Qty'', [Str ''2''])]"
proof -
  have a: "''SKU'' \<notin> set (columns [(''Item'', [Str ''COMBO_1'']), (''Qty'', [Str ''2''])])"
    by (simp add: columns_def)
  from handle_combo_products_no_column [OF a, of "''COMBO_''"] a show ?thesis by simp
qed

text \<open>
  C9. When \<open>process_sales_data\<close> returns a table, every column other than the SKU and
  MSKU columns is the column of the input, a table of \<open>n\<close> rows stays a table of \<open>n\<close>
  rows, the columns keep their order (the MSKU column is appended when it is new), and
  the SKU and MSKU columns are computed from the input's SKU column row by row, in the
  input's order.
\<close>

theorem process_sales_data_frame:
  assumes run: "fst (process_sales_data self df sku_column msku_column) = Inr df'"
    and ne: "sku_column \<noteq> msku_column"
  shows "(\<forall>c. c \<noteq> sku_column \<and> c \<noteq> msku_column \<longrightarrow> getitem df' c = getitem df c)
    \<and> (\<forall>n. table_rows n df \<longrightarrow> table_rows n df')
    \<and> columns df' = (if msku_column \<in> set (columns df) then columns df else columns df @ [msku_column])
    \<and> (\<exists>s. getitem df sku_column = Inr s
          \<and> getitem df' sku_column = Inr (map (process_combo ''COMBO_'') s)
          \<and> getitem df' msku_column
              = Inr (map (\<lambda>v. identify_and_map_sku self (process_combo ''COMBO_'' v)) s))"
proof -
  have m: "sku_to_msku_map self \<noteq> []" and c: "sku_column \<in> set (columns df)"
    using run by (auto simp: process_sales_data_def split: if_splits)
  obtain s where s: "getitem df sku_column = Inr s" using c in_columns_getitem by blast
  let ?r = "identify_and_map_sku self" and ?p = "process_combo ''COMBO_''"
  have df': "df' = setitem (setitem (setitem df msku_column (map ?r s)) sku_column (map ?p s))
                 msku_column (map ?r (map ?p s))"
    using run process_sales_data_run [OF m s ne] by (simp add: Let_def)
  have 1: "\<forall>c. c \<noteq> sku_column \<and> c \<noteq> msku_column \<longrightarrow> getitem df' c = getitem df c"
    by (simp add: df' getitem_setitem)
  have 2: "\<forall>n. table_rows n df \<longrightarrow> table_rows n df'"
  proof (intro allI impI)
    fix n assume t: "table_rows n df"
    then have "length s = n" using s by (rule table_rows_getitem)
    then show "table_rows n df'" using t by (simp add: df' table_rows_setitem)
  qed
  have 3: "columns df' = (if msku_column \<in> set (columns df) then columns df else columns df @ [msku_column])"
    using c by (simp add: df' columns_setitem)
  have 4: "getitem df' sku_column = Inr (map ?p s)"
    using ne by (simp add: df' getitem_setitem)
  have 5: "getitem df' msku_column = Inr (map (\<lambda>v. ?r (?p v)) s)"
    by (simp add: df' getitem_setitem comp_def)
  from 1 2 3 4 5 s show ?thesis by blast
qed

text \<open>
  A table of three rows with the columns Order, SKU and Qty, under the dictionary of
  scenario A: a mapped row, a row with no SKU and a combo row.
\<close>

theorem process_sales_data_frame_witness:
  "fst (process_sales_data
         \<lparr>sku_to_msku_map = [(Str ''ABC123'', Str ''M-1''), (Str ''XYZ999'', Str ''M-2'')],
            processed_data = None\<rparr>
         [(''Order'', [Str ''o1'', Str ''o2'', Str ''o3'']),
          (''SKU'', [Str '' abc123 '', NaN, Str ''combo_special'']),
          (''Qty'', [Str ''2'', Str ''1'', Str ''5''])] ''SKU'' ''MSKU'')
     = Inr [(''Order'', [Str ''o1'', Str ''o2'', Str ''o3'']),
            (''SKU'', [Str '' abc123 '', NaN, Str ''COMBO_MSKU'']),
            (''Qty'', [Str ''2'', Str ''1'', Str ''5'']),
            (''MSKU'', [Str ''M-1'', PyNone, Str ''COMBO_MSKU''])]
   \<and> ''SKU'' \<noteq> ''MSKU''
   \<and> table_rows 3 [(''Order'', [Str ''o1'', Str ''o2'', Str ''o3'']),
            (''SKU'', [Str '' abc123 '', NaN, Str ''COMBO_MSKU'']),
            (''Qty'', [Str ''2'', Str ''1'', Str ''5'']),
            (''MSKU'', [Str ''M-1'', PyNone, Str ''COMBO_MSKU''])]
   \<and> getitem [(''Order'', [Str ''o1'', Str ''o2'', Str ''o3'']),
            (''SKU'', [Str '' abc123 '', NaN, Str ''COMBO_MSKU'']),
            (''Qty'', [Str ''2'', Str ''1'', Str ''5'']),
            (''MSKU'', [Str ''M-1'', PyNone, Str ''COMBO_MSKU''])] ''Qty''
       = getitem [(''Order'', [Str ''o1'', Str ''o2'', Str ''o3'']),
          (''SKU'', [Str '' abc123 '', NaN, Str ''combo_special'']),
          (''Qty'', [Str ''2'', Str ''1'', Str ''5''])] ''Qty''"
proof -
  let ?self = "\<lparr>sku_to_msku_map = [(Str ''ABC123'', Str ''M-1''), (Str ''XYZ999'', Str ''M-2'')],
            processed_data = None\<rparr>"
  let ?df = "[(''Order'', [Str ''o1'', Str ''o2'', Str ''o3'']),
          (''SKU'', [Str '' abc123 '', NaN, Str ''combo_special'']),
          (''Qty'', [Str ''2'', Str ''1'', Str ''5''])]"
  let ?df' = "[(''Order'', [Str ''o1'', Str ''o2'', Str ''o3'']),
            (''SKU'', [Str '' abc123 '', NaN, Str ''COMBO_MSKU'']),
            (''Qty'', [Str ''2'', Str ''1'', Str ''5'']),
            (''MSKU'', [Str ''M-1'', PyNone, Str ''COMBO_MSKU''])]"
  have run: "fst (process_sales_data ?self ?df ''SKU'' ''MSKU'') = Inr ?df'"
    by (simp add: run_defs)
  have ne: "''SKU'' \<noteq> ''MSKU''" by simp
  have t: "table_rows 3 ?df" by (simp add: table_rows_def columns_def)
  note f = process_sales_data_frame [OF run ne]
  from f t have "table_rows 3 ?df'" by blast
  moreover from f have "getitem ?df' ''Qty'' = getitem ?df ''Qty''" by simp
  ultimately show ?thesis using run ne by blast
qed

subsection \<open>Combo rows\<close>

lemma combo_not_missing:
  "startswith (upper (strip (py_str v))) ''COMBO_'' \<Longrightarrow> \<not> isna v"
  by (cases v) (simp_all add: startswith_def upper_def strip_def isspace_def upper_char_def)

lemma clean_placeholder: "upper (strip ''COMBO_MSKU'') = ''COMBO_MSKU''"
  by (simp add: upper_def strip_def isspace_def upper_char_def)

lemma process_combo_combo:
  "startswith (upper (strip (py_str v))) ''COMBO_'' \<Longrightarrow> process_combo ''COMBO_'' v = Str ''COMBO_MSKU''"
  by (simp add: process_combo_def combo_not_missing)

lemma process_combo_idem:
  "process_combo ''COMBO_'' (process_combo ''COMBO_'' v) = process_combo ''COMBO_'' v"
  by (simp add: process_combo_def clean_placeholder startswith_def)

lemma identify_and_map_sku_placeholder:
  "identify_and_map_sku self (Str ''COMBO_MSKU'') =
     (case dict_get (sku_to_msku_map self) (Str ''COMBO_MSKU'') of
        Some msku \<Rightarrow> msku | None \<Rightarrow> Str ''COMBO_MSKU'')"
  by (simp add: identify_and_map_sku_def clean_placeholder)

text \<open>
  C1, as amended. \<open>process_sales_data\<close> writes the MSKU column from the resolver, then
  classifies the SKU column in place, then writes the MSKU column again from the updated
  SKU column. A row whose SKU text, stripped and upper-cased, starts with
  \<^verbatim>\<open>COMBO_\<close> ends with the SKU \<^verbatim>\<open>COMBO_MSKU\<close>, and with the MSKU that the
  resolver gives for \<^verbatim>\<open>COMBO_MSKU\<close>: the placeholder itself when the dictionary has
  no such key, the value stored under that key otherwise.
\<close>

theorem process_sales_data_combo_row:
  assumes m: "sku_to_msku_map self \<noteq> []"
    and s: "getitem df ''SKU'' = Inr col"
    and i: "i < length col"
    and combo: "startswith (upper (strip (py_str (col ! i)))) ''COMBO_''"
  shows "\<exists>df' sk ms.
      process_sales_data self df ''SKU'' ''MSKU'' = (Inr df', self\<lparr>processed_data := Some df'\<rparr>, df')
    \<and> df' = setitem
             (setitem
               (setitem df ''MSKU'' (series_apply col (identify_and_map_sku self)))
               ''SKU'' (series_apply col (process_combo ''COMBO_'')))
             ''MSKU'' (series_apply (series_apply col (process_combo ''COMBO_'')) (identify_and_map_sku self))
    \<and> getitem df' ''SKU'' = Inr sk \<and> getitem df' ''MSKU'' = Inr ms
    \<and> length sk = length col \<and> length ms = length col
    \<and> sk ! i = Str ''COMBO_MSKU''
    \<and> ms ! i = (case dict_get (sku_to_msku_map self) (Str ''COMBO_MSKU'') of
                  Some msku \<Rightarrow> msku | None \<Rightarrow> Str ''COMBO_MSKU'')"
proof -
  let ?r = "identify_and_map_sku self" and ?p = "process_combo ''COMBO_''"
  let ?df' = "setitem (setitem (setitem df ''MSKU'' (map ?r col)) ''SKU'' (map ?p col))
                ''MSKU'' (map ?r (map ?p col))"
  have run: "process_sales_data self df ''SKU'' ''MSKU'' = (Inr ?df', self\<lparr>processed_data := Some ?df'\<rparr>, ?df')"
    using process_sales_data_run [OF m s, of "''MSKU''"] by (simp add: Let_def)
  have sk: "getitem ?df' ''SKU'' = Inr (map ?p col)" by (simp add: getitem_setitem)
  have ms: "getitem ?df' ''MSKU'' = Inr (map ?r (map ?p col))" by (simp add: getitem_setitem)
  have ski: "map ?p col ! i = Str ''COMBO_MSKU''"
    using i combo by (simp add: process_combo_combo)
  have msi: "map ?r (map ?p col) ! i =
      (case dict_get (sku_to_msku_map self) (Str ''COMBO_MSKU'') of
         Some msku \<Rightarrow> msku | None \<Rightarrow> Str ''COMBO_MSKU'')"
    using i combo by (simp add: process_combo_combo identify_and_map_sku_placeholder)
  show ?thesis
    using run sk ms ski msi by (simp add: series_apply_def)
qed

text \<open>
  Scenario C of the specification: the SKU \<^verbatim>\<open>combo_special\<close> under the dictionary of
  scenario A.
\<close>

theorem process_sales_data_combo_row_witness:
  "sku_to_msku_map \<lparr>sku_to_msku_map = [(Str ''ABC123'', Str ''M-1''), (Str ''XYZ999'', Str ''M-2'')],
      processed_data = None\<rparr> \<noteq> [] \<and>
   getitem [(''SKU'', [Str ''combo_special'']), (''Qty'', [Str ''2''])] ''SKU'' = Inr [Str ''combo_special''] \<and>
   (0::nat) < length [Str ''combo_special''] \<and>
   startswith (upper (strip (py_str ([Str ''combo_special''] ! 0)))) ''COMBO_'' \<and>
   fst (process_sales_data
         \<lparr>sku_to_msku_map = [(Str ''ABC123'', Str ''M-1''), (Str ''XYZ999'', Str ''M-2'')],
            processed_data = None\<rparr>
         [(''SKU'', [Str ''combo_special'']), (''Qty'', [Str ''2''])] ''SKU'' ''MSKU'')
     = Inr [(''SKU'', [Str ''COMBO_MSKU'']), (''Qty'', [Str ''2'']), (''MSKU'', [Str ''COMBO_MSKU''])]"
proof -
  let ?self = "\<lparr>sku_to_msku_map = [(Str ''ABC123'', Str ''M-1''), (Str ''XYZ999'', Str ''M-2'')],
      processed_data = None\<rparr>"
  let ?df = "[(''SKU'', [Str ''combo_special'']), (''Qty'', [Str ''2''])]"
  have a: "sku_to_msku_map ?self \<noteq> []" by simp
  have b: "getitem ?df ''SKU'' = Inr [Str ''combo_special'']" by (simp add: getitem_def)
  have c: "(0::nat) < length [Str ''combo_special'']" by simp
  have d: "startswith (upper (strip (py_str ([Str ''combo_special''] ! 0)))) ''COMBO_''"
    by (simp add: startswith_def upper_def strip_def isspace_def upper_char_def)
  from process_sales_data_combo_row [OF a b c d]
  have "fst (process_sales_data ?self ?df ''SKU'' ''MSKU'')
     = Inr [(''SKU'', [Str ''COMBO_MSKU'']), (''Qty'', [Str ''2'']), (''MSKU'', [Str ''COMBO_MSKU''])]"
    by (auto simp: run_defs)
  with a b c d show ?thesis by blast
qed

text \<open>
  C1 as stated fails when the dictionary maps the placeholder: the third pass resolves
  \<^verbatim>\<open>COMBO_MSKU\<close> to the stored value, and the row's MSKU is not the placeholder.
\<close>

theorem process_sales_data_combo_row_mapped_placeholder:
  "fst (process_sales_data
         \<lparr>sku_to_msku_map = [(Str ''COMBO_MSKU'', Str ''M-9'')], processed_data = None\<rparr>
         [(''SKU'', [Str ''combo_special''])] ''SKU'' ''MSKU'')
     = Inr [(''SKU'', [Str ''COMBO_MSKU'']), (''MSKU'', [Str ''M-9''])]
   \<and> Str ''M-9'' \<noteq> Str ''COMBO_MSKU''"
  by (simp add: run_defs)

subsection \<open>Missing values and lookup misses\<close>

lemma identify_and_map_sku_missing:
  "isna s \<Longrightarrow> identify_and_map_sku self s = PyNone"
  by (simp add: identify_and_map_sku_def)

lemma process_combo_missing: "isna s \<Longrightarrow> process_combo p s = s"
  by (simp add: process_combo_def)

lemma process_sales_data_missing_row:
  assumes "sku_to_msku_map self \<noteq> []" and "getitem df ''SKU'' = Inr col"
    and "i < length col" and "isna (col ! i)"
  shows "\<exists>df' sk ms. fst (process_sales_data self df ''SKU'' ''MSKU'') = Inr df'
    \<and> getitem df' ''SKU'' = Inr sk \<and> getitem df' ''MSKU'' = Inr ms
    \<and> sk ! i = col ! i \<and> ms ! i = PyNone"
  using assms process_sales_data_run [OF assms(1,2), of "''MSKU''"]
  by (simp add: Let_def getitem_setitem process_combo_missing identify_and_map_sku_missing)

text \<open>
  C4. The guard of \<open>identify_and_map_sku\<close> is \<^verbatim>\<open>pd.isna\<close>, and its comment reads
  "Return None for NaN or empty SKUs". For \<^verbatim>\<open>None\<close> and \<^verbatim>\<open>nan\<close> the resolver
  returns \<^verbatim>\<open>None\<close> and the row's MSKU is \<^verbatim>\<open>None\<close> (the two lemmas above). The
  empty text is not missing for \<^verbatim>\<open>pd.isna\<close>: it is looked up like any other text. The
  resolver returns the empty text itself, not \<^verbatim>\<open>None\<close>, on a miss, and the stored MSKU
  when the dictionary has the empty text as a key, which then is the row's MSKU.
\<close>

theorem identify_and_map_sku_empty_text:
  "identify_and_map_sku
     \<lparr>sku_to_msku_map = [(Str ''ABC123'', Str ''M-1''), (Str ''XYZ999'', Str ''M-2'')],
        processed_data = None\<rparr> (Str '''') = Str ''''
   \<and> identify_and_map_sku
     \<lparr>sku_to_msku_map = [(Str '''', Str ''M-0'')], processed_data = None\<rparr> (Str '''') = Str ''M-0''
   \<and> fst (process_sales_data
           \<lparr>sku_to_msku_map = [(Str '''', Str ''M-0'')], processed_data = None\<rparr>
           [(''SKU'', [Str ''''])] ''SKU'' ''MSKU'')
       = Inr [(''SKU'', [Str '''']), (''MSKU'', [Str ''M-0''])]"
  by (simp add: run_defs)

text \<open>
  C3. For every raw SKU value \<open>s\<close> that is not missing and whose stripped, upper-cased
  text is not a key of the dictionary, \<open>identify_and_map_sku\<close> returns \<open>s\<close> itself. The
  transformation of a table that holds \<open>s\<close> in its SKU column does not raise, and the
  row's MSKU is \<open>s\<close> (unless \<open>s\<close> is a combo SKU, which the classifier replaces before
  the last pass).
\<close>

theorem identify_and_map_sku_unmapped:
  assumes present: "\<not> isna s"
    and miss: "dict_get (sku_to_msku_map self) (Str (upper (strip (py_str s)))) = None"
  shows "identify_and_map_sku self s = s
    \<and> (\<forall>df col i. sku_to_msku_map self \<noteq> [] \<and> getitem df ''SKU'' = Inr col
          \<and> i < length col \<and> col ! i = s \<longrightarrow>
        (\<exists>df' ms. process_sales_data self df ''SKU'' ''MSKU''
                      = (Inr df', self\<lparr>processed_data := Some df'\<rparr>, df')
          \<and> getitem df' ''MSKU'' = Inr ms
          \<and> (\<not> startswith (upper (strip (py_str s))) ''COMBO_'' \<longrightarrow> ms ! i = s)))"
proof (intro conjI allI impI)
  show r: "identify_and_map_sku self s = s"
    using present miss by (simp add: identify_and_map_sku_def)
  fix df col i
  assume a: "sku_to_msku_map self \<noteq> [] \<and> getitem df ''SKU'' = Inr col \<and> i < length col \<and> col ! i = s"
  let ?r = "identify_and_map_sku self" and ?p = "process_combo ''COMBO_''"
  let ?df' = "setitem (setitem (setitem df ''MSKU'' (map ?r col)) ''SKU'' (map ?p col))
                ''MSKU'' (map ?r (map ?p col))"
  have run: "process_sales_data self df ''SKU'' ''MSKU'' = (Inr ?df', self\<lparr>processed_data := Some ?df'\<rparr>, ?df')"
    using a process_sales_data_run [of self df "''SKU''" col "''MSKU''"] by (simp add: Let_def)
  have ms: "getitem ?df' ''MSKU'' = Inr (map ?r (map ?p col))" by (simp add: getitem_setitem)
  have "\<not> startswith (upper (strip (py_str s))) ''COMBO_'' \<longrightarrow> map ?r (map ?p col) ! i = s"
    using a r by (simp add: process_combo_def)
  with run ms
  show "\<exists>df' ms. process_sales_data self df ''SKU'' ''MSKU''
                      = (Inr df', self\<lparr>processed_data := Some df'\<rparr>, df')
          \<and> getitem df' ''MSKU'' = Inr ms
          \<and> (\<not> startswith (upper (strip (py_str s))) ''COMBO_'' \<longrightarrow> ms ! i = s)"
    by blast
qed

text \<open>
  Scenario B of the specification: the SKU \<^verbatim>\<open>UNKNOWN1\<close> under the dictionary of
  scenario A.
\<close>

theorem identify_and_map_sku_unmapped_witness:
  "\<not> isna (Str ''UNKNOWN1'')
   \<and> dict_get (sku_to_msku_map
        \<lparr>sku_to_msku_map = [(Str ''ABC123'', Str ''M-1''), (Str ''XYZ999'', Str ''M-2'')],
           processed_data = None\<rparr>) (Str (upper (strip (py_str (Str ''UNKNOWN1''))))) = None
   \<and> identify_and_map_sku
        \<lparr>sku_to_msku_map = [(Str ''ABC123'', Str ''M-1''), (Str ''XYZ999'', Str ''M-2'')],
           processed_data = None\<rparr> (Str ''UNKNOWN1'') = Str ''UNKNOWN1''
   \<and> fst (process_sales_data
        \<lparr>sku_to_msku_map = [(Str ''ABC123'', Str ''M-1''), (Str ''XYZ999'', Str ''M-2'')],
           processed_data = None\<rparr>
        [(''SKU'', [Str ''UNKNOWN1''])] ''SKU'' ''MSKU'')
      = Inr [(''SKU'', [Str ''UNKNOWN1'']), (''MSKU'', [Str ''UNKNOWN1''])]"
proof -
  let ?self = "\<lparr>sku_to_msku_map = [(Str ''ABC123'', Str ''M-1''), (Str ''XYZ999'', Str ''M-2'')],
           processed_data = None\<rparr>"
  have n: "upper (strip ''UNKNOWN1'') = ''UNKNOWN1''"
    by (simp add: upper_def strip_def isspace_def upper_char_def)
  have a: "\<not> isna (Str ''UNKNOWN1'')" by simp
  have b: "dict_get (sku_to_msku_map ?self) (Str (upper (strip (py_str (Str ''UNKNOWN1''))))) = None"
    by (simp add: n dict_get_def)
  have c: "fst (process_sales_data ?self [(''SKU'', [Str ''UNKNOWN1''])] ''SKU'' ''MSKU'')
      = Inr [(''SKU'', [Str ''UNKNOWN1'']), (''MSKU'', [Str ''UNKNOWN1''])]"
    by (simp add: run_defs)
  from identify_and_map_sku_unmapped [OF a b] a b c show ?thesis by blast
qed

section \<open>Running the transformer twice\<close>

lemma setitem_same: "getitem df c = Inr s \<Longrightarrow> setitem df c s = df"
  by (auto simp: getitem_def setitem_def dict_setitem_same split: option.splits)

lemma identify_and_map_sku_processed_data:
  "identify_and_map_sku (self\<lparr>processed_data := x\<rparr>) = identify_and_map_sku self"
  by (rule ext) (simp add: identify_and_map_sku_def)

lemma process_sales_data_again:
  assumes run: "process_sales_data self df sc mc = (Inr df', self', df'')" and ne: "sc \<noteq> mc"
  shows "process_sales_data self' df' sc mc = (Inr df', self', df')"
proof -
  let ?r = "identify_and_map_sku self" and ?p = "process_combo ''COMBO_''"
  have m: "sku_to_msku_map self \<noteq> []" and c: "sc \<in> set (columns df)"
    using run by (auto simp: process_sales_data_def split: if_splits)
  obtain s where s: "getitem df sc = Inr s" using c in_columns_getitem by blast
  let ?df3 = "setitem (setitem (setitem df mc (map ?r s)) sc (map ?p s)) mc (map ?r (map ?p s))"
  have "(Inr df' :: error + dataframe, self', df'') = (Inr ?df3, self\<lparr>processed_data := Some ?df3\<rparr>, ?df3)"
    using process_sales_data_run [OF m s ne] unfolding run Let_def .
  then have df': "df' = ?df3" and self': "self' = self\<lparr>processed_data := Some df'\<rparr>"
    by simp_all
  have m': "sku_to_msku_map self' \<noteq> []" using m by (simp add: self')
  have r': "identify_and_map_sku self' = ?r"
    by (simp add: self' identify_and_map_sku_processed_data)
  have gs: "getitem df' sc = Inr (map ?p s)" using ne by (simp add: df' getitem_setitem)
  have gm: "getitem df' mc = Inr (map ?r (map ?p s))" by (simp add: df' getitem_setitem)
  have pp: "map ?p (map ?p s) = map ?p s" by (simp add: process_combo_idem)
  have 1: "setitem df' mc (map ?r (map ?p s)) = df'" using gm by (rule setitem_same)
  have 2: "setitem df' sc (map ?p s) = df'" using gs by (rule setitem_same)
  let ?d = "setitem (setitem (setitem df' mc (map (identify_and_map_sku self') (map ?p s)))
                       sc (map ?p (map ?p s)))
              mc (map (identify_and_map_sku self') (map ?p (map ?p s)))"
  have run2: "process_sales_data self' df' sc mc = (Inr ?d, self'\<lparr>processed_data := Some ?d\<rparr>, ?d)"
    using process_sales_data_run [OF m' gs ne] unfolding Let_def .
  have d: "?d = df'" by (simp only: r' pp 1 2)
  have "self'\<lparr>processed_data := Some df'\<rparr> = self'" by (simp add: self')
  with run2 d show ?thesis by (simp only:)
qed

text \<open>
  C5, as amended. \<open>process_sales_data\<close> is idempotent: applied to the table and mapper
  that a first application returned, it returns that same table and leaves the mapper as
  it is, combo rows included. (The table the call returns is the caller's table after the
  call.)
\<close>

theorem process_sales_data_idempotent:
  assumes "process_sales_data self df ''SKU'' ''MSKU'' = (Inr df', self', df'')"
  shows "df'' = df' \<and> process_sales_data self' df' ''SKU'' ''MSKU'' = (Inr df', self', df')"
proof -
  have "df'' = df'"
    using assms by (auto simp: process_sales_data_def handle_combo_products_def Let_def
        split: if_splits sum.splits)
  moreover have "process_sales_data self' df' ''SKU'' ''MSKU'' = (Inr df', self', df')"
    using assms by (rule process_sales_data_again) simp
  ultimately show ?thesis by simp
qed

text \<open>
  A combo row and a mapped row under the dictionary of scenario A, transformed twice.
\<close>

theorem process_sales_data_idempotent_witness:
  "process_sales_data
      \<lparr>sku_to_msku_map = [(Str ''ABC123'', Str ''M-1''), (Str ''XYZ999'', Str ''M-2'')],
         processed_data = None\<rparr>
      [(''SKU'', [Str ''combo_special'', Str ''abc123''])] ''SKU'' ''MSKU''
    = (Inr [(''SKU'', [Str ''COMBO_MSKU'', Str ''abc123'']), (''MSKU'', [Str ''COMBO_MSKU'', Str ''M-1''])],
       \<lparr>sku_to_msku_map = [(Str ''ABC123'', Str ''M-1''), (Str ''XYZ999'', Str ''M-2'')],
         processed_data = Some [(''SKU'', [Str ''COMBO_MSKU'', Str ''abc123'']),
                                (''MSKU'', [Str ''COMBO_MSKU'', Str ''M-1''])]\<rparr>,
       [(''SKU'', [Str ''COMBO_MSKU'', Str ''abc123'']), (''MSKU'', [Str ''COMBO_MSKU'', Str ''M-1''])])
   \<and> process_sales_data
      \<lparr>sku_to_msku_map = [(Str ''ABC123'', Str ''M-1''), (Str ''XYZ999'', Str ''M-2'')],
         processed_data = Some [(''SKU'', [Str ''COMBO_MSKU'', Str ''abc123'']),
                                (''MSKU'', [Str ''COMBO_MSKU'', Str ''M-1''])]\<rparr>
      [(''SKU'', [Str ''COMBO_MSKU'', Str ''abc123'']), (''MSKU'', [Str ''COMBO_MSKU'', Str ''M-1''])]
      ''SKU'' ''MSKU''
    = (Inr [(''SKU'', [Str ''COMBO_MSKU'', Str ''abc123'']), (''MSKU'', [Str ''COMBO_MSKU'', Str ''M-1''])],
       \<lparr>sku_to_msku_map = [(Str ''ABC123'', Str ''M-1''), (Str ''XYZ999'', Str ''M-2'')],
         processed_data = Some [(''SKU'', [Str ''COMBO_MSKU'', Str ''abc123'']),
                                (''MSKU'', [Str ''COMBO_MSKU'', Str ''M-1''])]\<rparr>,
       [(''SKU'', [Str ''COMBO_MSKU'', Str ''abc123'']), (''MSKU'', [Str ''COMBO_MSKU'', Str ''M-1''])])"
proof -
  have run: "process_sales_data
      \<lparr>sku_to_msku_map = [(Str ''ABC123'', Str ''M-1''), (Str ''XYZ999'', Str ''M-2'')],
         processed_data = None\<rparr>
      [(''SKU'', [Str ''combo_special'', Str ''abc123''])] ''SKU'' ''MSKU''
    = (Inr [(''SKU'', [Str ''COMBO_MSKU'', Str ''abc123'']), (''MSKU'', [Str ''COMBO_MSKU'', Str ''M-1''])],
       \<lparr>sku_to_msku_map = [(Str ''ABC123'', Str ''M-1''), (Str ''XYZ999'', Str ''M-2'')],
         processed_data = Some [(''SKU'', [Str ''COMBO_MSKU'', Str ''abc123'']),
                                (''MSKU'', [Str ''COMBO_MSKU'', Str ''M-1''])]\<rparr>,
       [(''SKU'', [Str ''COMBO_MSKU'', Str ''abc123'']), (''MSKU'', [Str ''COMBO_MSKU'', Str ''M-1''])])"
    by (simp add: run_defs)
  from process_sales_data_idempotent [OF run] run show ?thesis by simp
qed

text \<open>
  C5 as stated fails: there is no transformed table with a combo row on which a second
  application gives anything but the result of the first.
\<close>

theorem process_sales_data_never_differs_on_rerun:
  "\<not> (\<exists>self df df' self' df'' col i.
        process_sales_data self df ''SKU'' ''MSKU'' = (Inr df', self', df'')
      \<and> getitem df' ''SKU'' = Inr col \<and> i < length col
      \<and> startswith (upper (strip (py_str (col ! i)))) ''COMBO_''
      \<and> process_sales_data self' df' ''SKU'' ''MSKU'' \<noteq> (Inr df', self', df'))"
proof
  assume "\<exists>self df df' self' df'' col i.
        process_sales_data self df ''SKU'' ''MSKU'' = (Inr df', self', df'')
      \<and> getitem df' ''SKU'' = Inr col \<and> i < length col
      \<and> startswith (upper (strip (py_str (col ! i)))) ''COMBO_''
      \<and> process_sales_data self' df' ''SKU'' ''MSKU'' \<noteq> (Inr df', self', df')"
  then obtain self df df' self' df'' where
    run: "process_sales_data self df ''SKU'' ''MSKU'' = (Inr df', self', df'')"
    and diff: "process_sales_data self' df' ''SKU'' ''MSKU'' \<noteq> (Inr df', self', df')"
    by blast
  have "process_sales_data self' df' ''SKU'' ''MSKU'' = (Inr df', self', df')"
    using run by (rule process_sales_data_again) simp
  with diff show False by contradiction
qed

section \<open>Loading the mapping\<close>

lemma map_of_foldl_dict_setitem:
  "map_of (foldl (\<lambda>d (k, v). dict_setitem d k v) d ps) k =
     (case map_of (rev ps) k of Some v \<Rightarrow> Some v | None \<Rightarrow> map_of d k)"
proof (induction ps arbitrary: d)
  case Nil
  then show ?case by simp
next
  case (Cons p ps)
  obtain a b where p: "p = (a, b)" by (cases p)
  show ?case
    by (simp add: Cons.IH p map_of_dict_setitem map_add_def split: option.splits)
qed

lemma distinct_foldl_dict_setitem:
  "distinct (map fst d) \<Longrightarrow> distinct (map fst (foldl (\<lambda>d (k, v). dict_setitem d k v) d ps))"
proof (induction ps arbitrary: d)
  case Nil
  then show ?case by simp
next
  case (Cons p ps)
  obtain a b where p: "p = (a, b)" by (cases p)
  have "distinct (map fst (dict_setitem d a b))"
    using Cons.prems by (rule distinct_keys_dict_setitem)
  then show ?case by (simp add: p Cons.IH)
qed

lemma set_keys_foldl_dict_setitem:
  "fst ` set (foldl (\<lambda>d (k, v). dict_setitem d k v) d ps) = fst ` set d \<union> fst ` set ps"
proof (induction ps arbitrary: d)
  case Nil
  then show ?case by simp
next
  case (Cons p ps)
  obtain a b where p: "p = (a, b)" by (cases p)
  have "set (map fst (dict_setitem d a b)) = insert a (set (map fst d))"
    by (auto simp: keys_dict_setitem)
  then have "fst ` set (dict_setitem d a b) = insert a (fst ` set d)" by simp
  then show ?case by (simp add: p Cons.IH)
qed

lemma dict_get_to_dict: "dict_get (to_dict ps) k = map_of (rev ps) k"
  by (simp add: dict_get_def to_dict_def map_of_foldl_dict_setitem split: option.splits)

lemma distinct_keys_to_dict: "distinct (keys (to_dict ps))"
  by (simp add: keys_def to_dict_def distinct_foldl_dict_setitem)

lemma set_keys_to_dict: "set (keys (to_dict ps)) = set (map fst ps)"
  by (simp add: keys_def to_dict_def set_keys_foldl_dict_setitem)

lemma dict_get_keys: "(dict_get d k \<noteq> None) = (k \<in> set (keys d))"
  by (simp add: dict_get_def keys_def map_of_eq_None_iff)

lemma map_of_rev_last:
  assumes "i < length ps" and "\<forall>j. i < j \<and> j < length ps \<longrightarrow> fst (ps ! j) \<noteq> fst (ps ! i)"
  shows "map_of (rev ps) (fst (ps ! i)) = Some (snd (ps ! i))"
  using assms
proof (induction ps rule: rev_induct)
  case Nil
  then show ?case by simp
next
  case (snoc q qs)
  show ?case
  proof (cases "i = length qs")
    case True
    then show ?thesis by (cases q) simp
  next
    case False
    then have i: "i < length qs" using snoc.prems(1) by simp
    have "fst ((qs @ [q]) ! length qs) \<noteq> fst ((qs @ [q]) ! i)"
      using snoc.prems(2) [rule_format, of "length qs"] i by simp
    then have q: "fst q \<noteq> fst (qs ! i)" using i by (simp add: nth_append)
    have "\<forall>j. i < j \<and> j < length qs \<longrightarrow> fst (qs ! j) \<noteq> fst (qs ! i)"
    proof (intro allI impI)
      fix j assume j: "i < j \<and> j < length qs"
      then have "fst ((qs @ [q]) ! j) \<noteq> fst ((qs @ [q]) ! i)"
        using snoc.prems(2) [rule_format, of j] by simp
      then show "fst (qs ! j) \<noteq> fst (qs ! i)" using i j by (simp add: nth_append)
    qed
    with snoc.IH i have "map_of (rev qs) (fst (qs ! i)) = Some (snd (qs ! i))" by blast
    then show ?thesis using i q by (cases q) (auto simp: nth_append)
  qed
qed

lemma load_mapping_ok:
  assumes "file_path \<noteq> []" and "read_csv file_path = Table mapping_df"
    and "getitem mapping_df ''SKU'' = Inr skus" and "getitem mapping_df ''MSKU'' = Inr mskus"
  shows "load_mapping self file_path read_csv
    = (Inr True, self\<lparr>sku_to_msku_map := to_dict (zip skus mskus)\<rparr>)"
  using assms by (simp add: load_mapping_def)

text \<open>
  C7. After a load that succeeds, no key occurs twice in the dictionary, and for every row
  of the source table that is the last one with its SKU, the dictionary holds that row's
  MSKU under that SKU. The source table's two columns have the same length, as the columns
  of a DataFrame do.
\<close>

theorem load_mapping_last_wins:
  assumes path: "file_path \<noteq> []" and csv: "read_csv file_path = Table mapping_df"
    and skus: "getitem mapping_df ''SKU'' = Inr skus"
    and mskus: "getitem mapping_df ''MSKU'' = Inr mskus"
    and len: "length mskus = length skus"
  shows "\<exists>self'. load_mapping self file_path read_csv = (Inr True, self')
    \<and> distinct (keys (sku_to_msku_map self'))
    \<and> (\<forall>i. i < length skus \<and> (\<forall>j. i < j \<and> j < length skus \<longrightarrow> skus ! j \<noteq> skus ! i)
          \<longrightarrow> dict_get (sku_to_msku_map self') (skus ! i) = Some (mskus ! i))"
proof -
  let ?ps = "zip skus mskus"
  let ?self' = "self\<lparr>sku_to_msku_map := to_dict ?ps\<rparr>"
  have l: "load_mapping self file_path read_csv = (Inr True, ?self')"
    using path csv skus mskus by (rule load_mapping_ok)
  have d: "distinct (keys (sku_to_msku_map ?self'))" by (simp add: distinct_keys_to_dict)
  have g: "\<forall>i. i < length skus \<and> (\<forall>j. i < j \<and> j < length skus \<longrightarrow> skus ! j \<noteq> skus ! i)
          \<longrightarrow> dict_get (sku_to_msku_map ?self') (skus ! i) = Some (mskus ! i)"
  proof (intro allI impI)
    fix i
    assume a: "i < length skus \<and> (\<forall>j. i < j \<and> j < length skus \<longrightarrow> skus ! j \<noteq> skus ! i)"
    then have i: "i < length ?ps" using len by simp
    have "\<forall>j. i < j \<and> j < length ?ps \<longrightarrow> fst (?ps ! j) \<noteq> fst (?ps ! i)"
      using a len by simp
    with i have "map_of (rev ?ps) (fst (?ps ! i)) = Some (snd (?ps ! i))"
      by (rule map_of_rev_last)
    then show "dict_get (sku_to_msku_map ?self') (skus ! i) = Some (mskus ! i)"
      using i by (simp add: dict_get_to_dict)
  qed
  from l d g show ?thesis by blast
qed

text \<open>
  A source table whose first and third rows share the SKU ABC123: the dictionary keeps
  M-3, the value of the third row.
\<close>

theorem load_mapping_last_wins_witness:
  "''mapping.csv'' \<noteq> []
   \<and> getitem [(''SKU'', [Str ''ABC123'', Str ''XYZ999'', Str ''ABC123'']),
               (''MSKU'', [Str ''M-1'', Str ''M-2'', Str ''M-3''])] ''SKU''
       = Inr [Str ''ABC123'', Str ''XYZ999'', Str ''ABC123'']
   \<and> getitem [(''SKU'', [Str ''ABC123'', Str ''XYZ999'', Str ''ABC123'']),
               (''MSKU'', [Str ''M-1'', Str ''M-2'', Str ''M-3''])] ''MSKU''
       = Inr [Str ''M-1'', Str ''M-2'', Str ''M-3'']
   \<and> load_mapping init ''mapping.csv''
        (\<lambda>p. Table [(''SKU'', [Str ''ABC123'', Str ''XYZ999'', Str ''ABC123'']),
                     (''MSKU'', [Str ''M-1'', Str ''M-2'', Str ''M-3''])])
       = (Inr True, \<lparr>sku_to_msku_map = [(Str ''ABC123'', Str ''M-3''), (Str ''XYZ999'', Str ''M-2'')],
                      processed_data = None\<rparr>)
   \<and> dict_get [(Str ''ABC123'', Str ''M-3''), (Str ''XYZ999'', Str ''M-2'')] (Str ''ABC123'')
       = Some (Str ''M-3'')
   \<and> distinct (keys [(Str ''ABC123'', Str ''M-3''), (Str ''XYZ999'', Str ''M-2'')])"
proof -
  let ?df = "[(''SKU'', [Str ''ABC123'', Str ''XYZ999'', Str ''ABC123'']),
              (''MSKU'', [Str ''M-1'', Str ''M-2'', Str ''M-3''])]"
  let ?skus = "[Str ''ABC123'', Str ''XYZ999'', Str ''ABC123'']"
  let ?mskus = "[Str ''M-1'', Str ''M-2'', Str ''M-3'']"
  let ?m = "[(Str ''ABC123'', Str ''M-3''), (Str ''XYZ999'', Str ''M-2'')]"
  have a: "''mapping.csv'' \<noteq> []" by simp
  have b: "(\<lambda>p. Table ?df) ''mapping.csv'' = Table ?df" by simp
  have c: "getitem ?df ''SKU'' = Inr ?skus" by (simp add: getitem_def)
  have d: "getitem ?df ''MSKU'' = Inr ?mskus" by (simp add: getitem_def)
  have e: "length ?mskus = length ?skus" by simp
  from load_mapping_last_wins [OF a b c d e, of init]
  obtain self' where l: "load_mapping init ''mapping.csv'' (\<lambda>p. Table ?df) = (Inr True, self')"
    and k: "distinct (keys (sku_to_msku_map self'))"
    and g: "\<forall>i. i < length ?skus \<and> (\<forall>j. i < j \<and> j < length ?skus \<longrightarrow> ?skus ! j \<noteq> ?skus ! i)
          \<longrightarrow> dict_get (sku_to_msku_map self') (?skus ! i) = Some (?mskus ! i)"
    by blast
  have ev: "load_mapping init ''mapping.csv'' (\<lambda>p. Table ?df)
      = (Inr True, \<lparr>sku_to_msku_map = ?m, processed_data = None\<rparr>)"
    by (simp add: load_mapping_def getitem_def to_dict_def init_def)
  from l ev have "self' = \<lparr>sku_to_msku_map = ?m, processed_data = None\<rparr>" by simp
  then have s: "sku_to_msku_map self' = ?m" by simp
  have "(2::nat) < length ?skus \<and> (\<forall>j. 2 < j \<and> j < length ?skus \<longrightarrow> ?skus ! j \<noteq> ?skus ! 2)"
    by simp
  with g have "dict_get (sku_to_msku_map self') (?skus ! 2) = Some (?mskus ! 2)" by blast
  then have v: "dict_get ?m (Str ''ABC123'') = Some (Str ''M-3'')" by (simp add: s)
  from a c d ev v k s show ?thesis by simp
qed

text \<open>
  C6. After a load that succeeds, the keys of the dictionary are exactly the raw values of
  the source table's SKU column: nothing is stripped or upper-cased at load time. So the
  lookup of a SKU value finds a key exactly when the stripped, upper-cased text of the
  value is itself one of the raw SKU values, and every other value resolves to itself.
\<close>

theorem load_mapping_keys_verbatim:
  assumes path: "file_path \<noteq> []" and csv: "read_csv file_path = Table mapping_df"
    and skus: "getitem mapping_df ''SKU'' = Inr skus"
    and mskus: "getitem mapping_df ''MSKU'' = Inr mskus"
    and len: "length mskus = length skus"
  shows "\<exists>self'. load_mapping self file_path read_csv = (Inr True, self')
    \<and> set (keys (sku_to_msku_map self')) = set skus
    \<and> (\<forall>s. \<not> isna s \<longrightarrow>
          (dict_get (sku_to_msku_map self') (Str (upper (strip (py_str s)))) \<noteq> None)
            = (Str (upper (strip (py_str s))) \<in> set skus))
    \<and> (\<forall>s. \<not> isna s \<and> Str (upper (strip (py_str s))) \<notin> set skus
          \<longrightarrow> identify_and_map_sku self' s = s)"
proof -
  let ?self' = "self\<lparr>sku_to_msku_map := to_dict (zip skus mskus)\<rparr>"
  have l: "load_mapping self file_path read_csv = (Inr True, ?self')"
    using path csv skus mskus by (rule load_mapping_ok)
  have k: "set (keys (sku_to_msku_map ?self')) = set skus"
    using len by (simp add: set_keys_to_dict)
  have h: "\<forall>s. \<not> isna s \<longrightarrow>
          (dict_get (sku_to_msku_map ?self') (Str (upper (strip (py_str s)))) \<noteq> None)
            = (Str (upper (strip (py_str s))) \<in> set skus)"
    using k by (simp only: dict_get_keys) simp
  have m: "\<forall>s. \<not> isna s \<and> Str (upper (strip (py_str s))) \<notin> set skus
          \<longrightarrow> identify_and_map_sku ?self' s = s"
  proof (intro allI impI)
    fix s assume a: "\<not> isna s \<and> Str (upper (strip (py_str s))) \<notin> set skus"
    then have "dict_get (sku_to_msku_map ?self') (Str (upper (strip (py_str s)))) = None"
      using k dict_get_keys [of "sku_to_msku_map ?self'" "Str (upper (strip (py_str s)))"] by simp
    then show "identify_and_map_sku ?self' s = s"
      using a by (simp add: identify_and_map_sku_def)
  qed
  from l k h m show ?thesis by blast
qed

text \<open>
  A source table with the raw SKU \<^verbatim>\<open>" abc123 "\<close>: the key is stored with its blanks
  and in lower case, and the lookup of that very value, normalised to ABC123, misses it.
\<close>

theorem load_mapping_keys_verbatim_witness:
  "''mapping.csv'' \<noteq> []
   \<and> getitem [(''SKU'', [Str '' abc123 '', Str ''XYZ999'']), (''MSKU'', [Str ''M-1'', Str ''M-2''])] ''SKU''
       = Inr [Str '' abc123 '', Str ''XYZ999'']
   \<and> getitem [(''SKU'', [Str '' abc123 '', Str ''XYZ999'']), (''MSKU'', [Str ''M-1'', Str ''M-2''])] ''MSKU''
       = Inr [Str ''M-1'', Str ''M-2'']
   \<and> load_mapping init ''mapping.csv''
        (\<lambda>p. Table [(''SKU'', [Str '' abc123 '', Str ''XYZ999'']), (''MSKU'', [Str ''M-1'', Str ''M-2''])])
       = (Inr True, \<lparr>sku_to_msku_map = [(Str '' abc123 '', Str ''M-1''), (Str ''XYZ999'', Str ''M-2'')],
                      processed_data = None\<rparr>)
   \<and> \<not> isna (Str '' abc123 '')
   \<and> Str (upper (strip (py_str (Str '' abc123 '')))) \<notin> set [Str '' abc123 '', Str ''XYZ999'']
   \<and> identify_and_map_sku
        \<lparr>sku_to_msku_map = [(Str '' abc123 '', Str ''M-1''), (Str ''XYZ999'', Str ''M-2'')],
           processed_data = None\<rparr> (Str '' abc123 '') = Str '' abc123 ''"
proof -
  let ?df = "[(''SKU'', [Str '' abc123 '', Str ''XYZ999'']), (''MSKU'', [Str ''M-1'', Str ''M-2''])]"
  let ?skus = "[Str '' abc123 '', Str ''XYZ999'']"
  let ?mskus = "[Str ''M-1'', Str ''M-2'']"
  let ?m = "[(Str '' abc123 '', Str ''M-1''), (Str ''XYZ999'', Str ''M-2'')]"
  have a: "''mapping.csv'' \<noteq> []" by simp
  have b: "(\<lambda>p. Table ?df) ''mapping.csv'' = Table ?df" by simp
  have c: "getitem ?df ''SKU'' = Inr ?skus" by (simp add: getitem_def)
  have d: "getitem ?df ''MSKU'' = Inr ?mskus" by (simp add: getitem_def)
  have e: "length ?mskus = length ?skus" by simp
  from load_mapping_keys_verbatim [OF a b c d e, of init]
  obtain self' where l: "load_mapping init ''mapping.csv'' (\<lambda>p. Table ?df) = (Inr True, self')"
    and g: "\<forall>s. \<not> isna s \<and> Str (upper (strip (py_str s))) \<notin> set ?skus
          \<longrightarrow> identify_and_map_sku self' s = s"
    by blast
  have ev: "load_mapping init ''mapping.csv'' (\<lambda>p. Table ?df)
      = (Inr True, \<lparr>sku_to_msku_map = ?m, processed_data = None\<rparr>)"
    by (simp add: load_mapping_def getitem_def to_dict_def init_def)
  from l ev have s: "self' = \<lparr>sku_to_msku_map = ?m, processed_data = None\<rparr>" by simp
  have n: "upper (strip '' abc123 '') = ''ABC123''"
    by (simp add: upper_def strip_def isspace_def upper_char_def)
  have h: "\<not> isna (Str '' abc123 '') \<and> Str (upper (strip (py_str (Str '' abc123 '')))) \<notin> set ?skus"
    by (simp add: n)
  with g have "identify_and_map_sku self' (Str '' abc123 '') = Str '' abc123 ''" by blast
  with a c d ev h s show ?thesis by simp
qed

end
